theory Spec2Isabelle
  imports Main
begin

section \<open>The configuration manager of config.go\<close>

subsection \<open>Errors, the outside world, observable events\<close>

text \<open>
  Go errors are values. \<open>ErrNoConfigFound\<close> is the empty struct of the source (it carries
  no data); \<open>TomlError\<close> and \<open>IOError\<close> stand for whatever the TOML decoder and the
  operating system report; \<open>FailedDecodeDefault e\<close> is
  \<^verbatim>\<open>fmt.Errorf("failed to decode default config: %s", err)\<close>.
\<close>

datatype error =
    ErrNoConfigFound
  | TomlError string
  | IOError string
  | FailedDecodeDefault error

text \<open>
  What the program asks of its environment: \<^verbatim>\<open>os.Getenv("HOME")\<close>, the result of
  \<^verbatim>\<open>ioutil.ReadFile\<close> on a path (\<open>None\<close> when the read fails, for any reason) and
  the error, if any, of \<^verbatim>\<open>ioutil.WriteFile\<close> on a path, a content and a permission.
\<close>

record world =
  HOME :: string
  files :: "string \<rightharpoonup> string"
  write_error :: "string \<Rightarrow> string \<Rightarrow> nat \<Rightarrow> error option"

text \<open>
  Everything the code does to the outside, one constructor per call site, recorded in
  the order of execution: the three logging levels, the file reads and writes and the
  lines printed on standard output.
\<close>

datatype event =
    DebugTrying string        \<comment> \<open>\<^verbatim>\<open>log.Debug("Trying configuration file '%s'", cd)\<close>\<close>
  | ReadFile string           \<comment> \<open>\<^verbatim>\<open>ioutil.ReadFile(cd)\<close>\<close>
  | DebugNoConfig string      \<comment> \<open>\<^verbatim>\<open>log.Debug("No config found at '%s' (%s)", cd, err)\<close>\<close>
  | WarnDecode string         \<comment> \<open>\<^verbatim>\<open>log.Warn("Unable to decode config file at '%s': %s", cd, err)\<close>\<close>
  | InfoGenerate              \<comment> \<open>\<^verbatim>\<open>log.Info("No configuration files were found, ...")\<close>\<close>
  | WriteFile string string nat \<comment> \<open>\<^verbatim>\<open>ioutil.WriteFile(fileName, []byte(defaultConf), 0644)\<close>\<close>
  | WarnNotCreated string     \<comment> \<open>\<^verbatim>\<open>log.Warn("A default config file could not be created ...")\<close>\<close>
  | Println string            \<comment> \<open>\<^verbatim>\<open>fmt.Println(cd)\<close>\<close>
  | InfoLoaded                \<comment> \<open>\<^verbatim>\<open>log.Info("Successfully loaded configuration file")\<close>\<close>

text \<open>
  \<^verbatim>\<open>toml.Decode(text, conf)\<close> belongs to a library outside the repository. It is a
  parameter of the model: given the text and the object behind the pointer it returns
  the error, if any, and the object as the call leaves it (a failing call may have
  written to it already).
\<close>

type_synonym 'c decoder = "string \<Rightarrow> 'c \<Rightarrow> error option \<times> 'c"

subsection \<open>The manager\<close>

text \<open>
  The struct of the source. \<open>Conf\<close> is a pointer to the caller's object in Go; here the
  field holds the object's current value and every operation returns the manager with
  the value the object has afterwards.
\<close>

record 'c Manager =
  confPaths :: "string list"
  fileName :: string
  defaultConfig :: string
  Conf :: 'c

text \<open>The octal literal \<^verbatim>\<open>0644\<close>.\<close>

definition perm_0644 :: nat where
  "perm_0644 = 6 * 64 + 4 * 8 + 4"

text \<open>The struct literal at the head of \<^verbatim>\<open>New\<close>.\<close>

definition newManager :: "world \<Rightarrow> string \<Rightarrow> string \<Rightarrow> string \<Rightarrow> 'c \<Rightarrow> 'c Manager" where
  "newManager w defaultConf confDir fileName' config =
     \<lparr> confPaths =
         [ confDir @ ''/'' @ fileName',
           fileName',
           HOME w @ ''/.config/'' @ fileName',
           ''/usr/local/etc/'' @ fileName',
           ''/etc/'' @ fileName' ],
       fileName = fileName',
       defaultConfig = defaultConf,
       Conf = config \<rparr>"

text \<open>Events that happened before those of the rest of a computation.\<close>

definition emit :: "event list \<Rightarrow> 'r \<times> 'c \<times> event list \<Rightarrow> 'r \<times> 'c \<times> event list" where
  "emit evs res = (case res of (r, c, ev) \<Rightarrow> (r, c, evs @ ev))"

text \<open>
  The loop of \<^verbatim>\<open>LoadConfig\<close> over the remaining candidates, from the object's current
  value: the returned error (\<open>None\<close> is Go's \<^verbatim>\<open>nil\<close>), the object afterwards, the events.
\<close>

fun tryPaths :: "'c decoder \<Rightarrow> world \<Rightarrow> string list \<Rightarrow> 'c \<Rightarrow> error option \<times> 'c \<times> event list" where
  "tryPaths dec w [] conf = (Some ErrNoConfigFound, conf, [])"
| "tryPaths dec w (cd # cds) conf =
     (if cd = [] then tryPaths dec w cds conf
      else case files w cd of
        None \<Rightarrow>
          emit [DebugTrying cd, ReadFile cd, DebugNoConfig cd] (tryPaths dec w cds conf)
      | Some confStr \<Rightarrow>
          (case dec confStr conf of
             (Some err, conf') \<Rightarrow>
               emit [DebugTrying cd, ReadFile cd, WarnDecode cd] (tryPaths dec w cds conf')
           | (None, conf') \<Rightarrow>
               (None, conf', [DebugTrying cd, ReadFile cd])))"

definition LoadConfig :: "'c decoder \<Rightarrow> world \<Rightarrow> 'c Manager \<Rightarrow> error option \<times> 'c Manager \<times> event list" where
  "LoadConfig dec w c =
     (case tryPaths dec w (confPaths c) (Conf c) of
        (err, conf', ev) \<Rightarrow> (err, c\<lparr>Conf := conf'\<rparr>, ev))"

text \<open>
  How a call of \<^verbatim>\<open>New\<close> ends: it returns the manager, it returns \<^verbatim>\<open>nil\<close> and an error
  (the caller's object is kept as the decoder left it), or the process exits with a
  status.
\<close>

datatype 'c outcome =
    Returned "'c Manager"
  | Failed error 'c
  | Exited int

definition New :: "'c decoder \<Rightarrow> world \<Rightarrow> string \<Rightarrow> string \<Rightarrow> string \<Rightarrow> 'c \<Rightarrow> bool \<Rightarrow> 'c outcome \<times> event list" where
  "New dec w defaultConf confDir fileName' config autoload =
     (let c = newManager w defaultConf confDir fileName' config in
      case dec defaultConf (Conf c) of
        (Some err, conf') \<Rightarrow> (Failed (FailedDecodeDefault err) conf', [])
      | (None, conf') \<Rightarrow>
          (let c = c\<lparr>Conf := conf'\<rparr> in
           if \<not> autoload then (Returned c, [])
           else case LoadConfig dec w c of
             (Some ErrNoConfigFound, c', ev) \<Rightarrow>
               (case write_error w fileName' defaultConf perm_0644 of
                  Some err \<Rightarrow>
                    (Exited 1,
                     ev @ [InfoGenerate, WriteFile fileName' defaultConf perm_0644,
                           WarnNotCreated fileName'] @ map Println (confPaths c'))
                | None \<Rightarrow>
                    (Exited 0,
                     ev @ [InfoGenerate, WriteFile fileName' defaultConf perm_0644]))
           | (_, c', ev) \<Rightarrow> (Returned c', ev @ [InfoLoaded])))"

text \<open>The paths handed to \<^verbatim>\<open>ioutil.ReadFile\<close>, in order.\<close>

fun reads :: "event list \<Rightarrow> string list" where
  "reads [] = []"
| "reads (ReadFile p # ev) = p # reads ev"
| "reads (_ # ev) = reads ev"

text \<open>
  The events of candidates that are passed over without a successful read: nothing for
  an empty path, the two debug lines around the failed read otherwise.
\<close>

fun skipped :: "string list \<Rightarrow> event list" where
  "skipped [] = []"
| "skipped (cd # cds) =
     (if cd = [] then skipped cds
      else [DebugTrying cd, ReadFile cd, DebugNoConfig cd] @ skipped cds)"

subsection \<open>The decoder as an overlay\<close>

text \<open>
  Modelled from the spec: the TOML decoder (\<^verbatim>\<open>toml.Decode\<close> of the imported library, whose
  code is not among the sources). The configuration object is a set of named fields.
  Decoding a document on top of an object changes only the fields present in the
  document. A decode may overwrite some of them before it fails on a later one, and
  which ones is left open. The parameter \<open>doc\<close> gives, for a text, the error the decoder
  ends with (if any) and the fields of the document; the parameter \<open>written\<close> gives, for
  a text that fails and the object it is decoded into, the fields that have been
  assigned by the time the decoder gives up.
\<close>

definition toml_decode ::
  "(string \<Rightarrow> error option \<times> (string \<rightharpoonup> 'v)) \<Rightarrow>
   (string \<Rightarrow> (string \<rightharpoonup> 'v) \<Rightarrow> string set) \<Rightarrow> (string \<rightharpoonup> 'v) decoder" where
  "toml_decode doc written text conf =
     (case fst (doc text) of
        None \<Rightarrow> (None, conf ++ snd (doc text))
      | Some err \<Rightarrow> (Some err, conf ++ (snd (doc text) |` written text conf)))"

subsection \<open>Sample documents and a sample environment\<close>

text \<open>
  Five texts for an object with two integer fields \<open>a\<close> and \<open>b\<close>: a default document
  setting both, two documents setting one field each, a document whose second line has
  the wrong type (only its first line can be assigned) and, for any other text, a
  syntax error that assigns nothing.
\<close>

definition sample_doc :: "string \<Rightarrow> error option \<times> (string \<rightharpoonup> int)" where
  "sample_doc text =
     (if text = ''a = 1'' @ [CHR 0x0A] @ ''b = 2'' then (None, [''a'' \<mapsto> 1, ''b'' \<mapsto> 2])
      else if text = ''b = 7'' then (None, [''b'' \<mapsto> 7])
      else if text = ''a = 3'' then (None, [''a'' \<mapsto> 3])
      else if text = ''a = 9'' @ [CHR 0x0A] @ ''b = true''
        then (Some (TomlError ''type mismatch''), [''a'' \<mapsto> 9])
      else (Some (TomlError ''syntax error''), Map.empty))"

definition sample_defaults :: string where
  "sample_defaults = ''a = 1'' @ [CHR 0x0A] @ ''b = 2''"

text \<open>
  Whether the first line of the document with the type error has been assigned when
  the decoder gives up is not determined by its text. In the sample it has been when
  the object already holds \<open>b = 7\<close> and has not been otherwise, so that two decodes
  of the same text can differ.
\<close>

definition sample_written :: "string \<Rightarrow> (string \<rightharpoonup> int) \<Rightarrow> string set" where
  "sample_written text conf = (if conf ''b'' = Some 7 then {''a''} else {})"

text \<open>
  A home directory, the readable files given as an association list, and a working
  directory that is writable exactly when \<open>writable\<close> holds.
\<close>

definition sample_world :: "(string \<times> string) list \<Rightarrow> bool \<Rightarrow> world" where
  "sample_world fs writable =
     \<lparr> HOME = ''/home/u'',
       files = map_of fs,
       write_error = (\<lambda>path data perm. if writable then None else Some (IOError ''read-only'')) \<rparr>"

text \<open>
  The environment and the manager of the examples in which a rejected file matters: a
  document with a type error in the custom directory \<open>d\<close>, a valid document that sets
  only \<open>b\<close> in the working directory, and the manager as \<^verbatim>\<open>New\<close> returns it without
  autoload, holding the defaults.
\<close>

definition leak_world :: world where
  "leak_world =
     sample_world [(''d/c.toml'', ''a = 9'' @ [CHR 0x0A] @ ''b = true''),
                   (''c.toml'', ''b = 7'')] True"

definition leak_manager :: "(string \<rightharpoonup> int) Manager" where
  "leak_manager =
     (newManager leak_world sample_defaults ''d'' ''c.toml'' Map.empty)
       \<lparr>Conf := [''a'' \<mapsto> 1, ''b'' \<mapsto> 2]\<rparr>"

section \<open>Properties\<close>

subsection \<open>Auxiliary facts about the loop\<close>

lemma emit_triple [simp]: "emit evs (r, c, ev) = (r, c, evs @ ev)"
  by (simp add: emit_def)

lemma fst_emit [simp]: "fst (emit evs res) = fst res"
  by (cases res) simp

lemma conf_emit [simp]: "fst (snd (emit evs res)) = fst (snd res)"
  by (cases res) simp

lemma events_emit [simp]: "snd (snd (emit evs res)) = evs @ snd (snd res)"
  by (cases res) simp

lemma emit_Nil: "emit [] res = res"
  by (cases res) simp

lemma reads_append [simp]: "reads (xs @ ys) = reads xs @ reads ys"
  by (induction xs rule: reads.induct) simp_all

lemma reads_skipped [simp]: "reads (skipped cds) = filter (\<lambda>cd. cd \<noteq> []) cds"
  by (induction cds) simp_all

lemma perm_0644_value: "perm_0644 = 420"
  by (simp add: perm_0644_def)

lemma newManager_confPaths:
  "confPaths (newManager w defaultConf confDir f config) =
     [confDir @ ''/'' @ f, f, HOME w @ ''/.config/'' @ f, ''/usr/local/etc/'' @ f, ''/etc/'' @ f]"
  by (simp add: newManager_def)

text \<open>The loop returns \<^verbatim>\<open>nil\<close> or \<open>ErrNoConfigFound\<close>, nothing else.\<close>

lemma tryPaths_error:
  "fst (tryPaths dec w cds conf) = None \<or> fst (tryPaths dec w cds conf) = Some ErrNoConfigFound"
  by (induction cds arbitrary: conf) (auto split: option.splits prod.splits)

text \<open>Running the loop over \<open>pre @ rest\<close>: over \<open>pre\<close>, then, unless that succeeded, over \<open>rest\<close>.\<close>

lemma tryPaths_append:
  "tryPaths dec w (pre @ rest) conf =
     (case tryPaths dec w pre conf of
        (None, conf', ev) \<Rightarrow> (None, conf', ev)
      | (Some e, conf', ev) \<Rightarrow> emit ev (tryPaths dec w rest conf'))"
proof (induction pre arbitrary: conf)
  case Nil
  show ?case by (cases "tryPaths dec w rest conf") simp
next
  case (Cons cd cds)
  show ?case
    by (auto simp: Cons.IH emit_def split: option.splits prod.splits)
qed

text \<open>Candidates that are empty or unreadable leave the object alone.\<close>

lemma tryPaths_unreadable:
  assumes "\<forall>cd \<in> set cds. cd \<noteq> [] \<longrightarrow> files w cd = None"
  shows "tryPaths dec w cds conf = (Some ErrNoConfigFound, conf, skipped cds)"
  using assms by (induction cds) simp_all

text \<open>Candidates none of which can be read and decoded: the loop ends with the marker error.\<close>

lemma tryPaths_unusable:
  assumes "\<forall>cd \<in> set cds. cd = [] \<or>
             (case files w cd of None \<Rightarrow> True | Some t \<Rightarrow> \<forall>c. fst (dec t c) \<noteq> None)"
  shows "fst (tryPaths dec w cds conf) = Some ErrNoConfigFound \<and>
         reads (snd (snd (tryPaths dec w cds conf))) = filter (\<lambda>cd. cd \<noteq> []) cds"
  using assms
proof (induction cds arbitrary: conf)
  case Nil
  show ?case by simp
next
  case (Cons cd cds)
  have rest: "\<forall>cd \<in> set cds. cd = [] \<or>
                (case files w cd of None \<Rightarrow> True | Some t \<Rightarrow> \<forall>c. fst (dec t c) \<noteq> None)"
    using Cons.prems by simp
  note IH = Cons.IH [OF rest]
  show ?case
  proof (cases "cd = []")
    case True
    then show ?thesis using IH by simp
  next
    case nonempty: False
    show ?thesis
    proof (cases "files w cd")
      case None
      then show ?thesis using nonempty IH by simp
    next
      case (Some t)
      with Cons.prems nonempty have "fst (dec t conf) \<noteq> None" by simp
      then obtain e conf' where "dec t conf = (Some e, conf')"
        by (cases "dec t conf") auto
      then show ?thesis using nonempty Some IH by simp
    qed
  qed
qed

text \<open>The three components of the result of \<^verbatim>\<open>LoadConfig\<close>.\<close>

lemma LoadConfig_error:
  "fst (LoadConfig dec w m) = fst (tryPaths dec w (confPaths m) (Conf m))"
  by (simp add: LoadConfig_def split: prod.splits)

lemma LoadConfig_manager:
  "fst (snd (LoadConfig dec w m)) =
     m\<lparr>Conf := fst (snd (tryPaths dec w (confPaths m) (Conf m)))\<rparr>"
  by (simp add: LoadConfig_def split: prod.splits)

lemma LoadConfig_events:
  "snd (snd (LoadConfig dec w m)) = snd (snd (tryPaths dec w (confPaths m) (Conf m)))"
  by (simp add: LoadConfig_def split: prod.splits)

text \<open>A candidate with a non-empty path is always handed to \<^verbatim>\<open>ioutil.ReadFile\<close>.\<close>

lemma tryPaths_first_read:
  "cd \<noteq> [] \<Longrightarrow>
   take 2 (snd (snd (tryPaths dec w (cd # cds) conf))) = [DebugTrying cd, ReadFile cd]"
  by (simp split: option.splits prod.splits)

text \<open>Without autoload, \<^verbatim>\<open>New\<close> returns the manager with the decoded defaults.\<close>

lemma New_no_autoload:
  "fst (dec defaultConf config) = None \<Longrightarrow>
   New dec w defaultConf confDir f config False =
     (Returned ((newManager w defaultConf confDir f config)
                  \<lparr>Conf := snd (dec defaultConf config)\<rparr>), [])"
  by (cases "dec defaultConf config") (simp add: New_def newManager_def)

subsection \<open>Construction with a malformed default document\<close>

text \<open>
  C8. When the default document does not decode, \<^verbatim>\<open>New\<close> returns no manager and the
  wrapped decode error, whatever the autoload flag; no event has happened by then, so
  no candidate file was looked for.
\<close>

theorem New_default_decode_error:
  assumes "fst (dec defaultConf config) = Some e"
  shows "New dec w defaultConf confDir f config autoload =
           (Failed (FailedDecodeDefault e) (snd (dec defaultConf config)), [])"
  using assms
  by (cases "dec defaultConf config") (simp add: New_def newManager_def)

theorem New_default_decode_error_witness:
  "fst (toml_decode sample_doc sample_written ''a ='' Map.empty) = Some (TomlError ''syntax error'') \<and>
   New (toml_decode sample_doc sample_written) (sample_world [(''c.toml'', ''b = 7'')] True)
       ''a ='' ''d'' ''c.toml'' Map.empty True =
     (Failed (FailedDecodeDefault (TomlError ''syntax error'')) Map.empty, [])"
proof -
  have h: "fst (toml_decode sample_doc sample_written ''a ='' Map.empty) = Some (TomlError ''syntax error'')"
    by (simp add: toml_decode_def sample_doc_def sample_written_def)
  have "snd (toml_decode sample_doc sample_written ''a ='' Map.empty) = Map.empty"
    by (simp add: toml_decode_def sample_doc_def sample_written_def)
  with h New_default_decode_error
      [where dec = "toml_decode sample_doc sample_written" and defaultConf = "''a =''"
         and config = Map.empty and w = "sample_world [(''c.toml'', ''b = 7'')] True"
         and confDir = "''d''" and f = "''c.toml''" and autoload = True, OF h]
  show ?thesis by simp
qed

subsection \<open>The candidate for an empty custom directory\<close>

text \<open>
  C1. The claim is that with \<open>confDir = ""\<close> the first candidate is skipped and never read.
  The code builds the first candidate as \<open>confDir + "/" + fileName\<close>, which for an empty
  directory is \<open>"/" + fileName\<close> and not the empty string, so the test \<open>cd == ""\<close> does
  not fire: the load begins by reading \<open>/<fileName>\<close> in the root directory, whatever
  the decoder and the environment. At the concrete input below a file \<open>/c.toml\<close> is
  the only one present, and \<^verbatim>\<open>New\<close> with an empty custom directory loads it.
\<close>

theorem New_empty_confDir_reads_root:
  "take 2 (snd (snd (LoadConfig dec w (newManager w defaultConf [] f config)))) =
     [DebugTrying (''/'' @ f), ReadFile (''/'' @ f)] \<and>
   New (toml_decode sample_doc sample_written) (sample_world [(''/c.toml'', ''a = 3'')] True)
       sample_defaults [] ''c.toml'' Map.empty True =
     (Returned \<lparr> confPaths = [''/c.toml'', ''c.toml'', ''/home/u/.config/c.toml'',
                               ''/usr/local/etc/c.toml'', ''/etc/c.toml''],
                 fileName = ''c.toml'', defaultConfig = sample_defaults,
                 Conf = [''a'' \<mapsto> 3, ''b'' \<mapsto> 2] \<rparr>,
      [DebugTrying ''/c.toml'', ReadFile ''/c.toml'', InfoLoaded])"
proof
  show "take 2 (snd (snd (LoadConfig dec w (newManager w defaultConf [] f config)))) =
     [DebugTrying (''/'' @ f), ReadFile (''/'' @ f)]"
    unfolding LoadConfig_events newManager_confPaths append_Nil
    by (rule tryPaths_first_read) simp
  show "New (toml_decode sample_doc sample_written) (sample_world [(''/c.toml'', ''a = 3'')] True)
       sample_defaults [] ''c.toml'' Map.empty True =
     (Returned \<lparr> confPaths = [''/c.toml'', ''c.toml'', ''/home/u/.config/c.toml'',
                               ''/usr/local/etc/c.toml'', ''/etc/c.toml''],
                 fileName = ''c.toml'', defaultConfig = sample_defaults,
                 Conf = [''a'' \<mapsto> 3, ''b'' \<mapsto> 2] \<rparr>,
      [DebugTrying ''/c.toml'', ReadFile ''/c.toml'', InfoLoaded])"
    by (simp add: New_def LoadConfig_def newManager_def toml_decode_def sample_doc_def sample_written_def
        sample_defaults_def sample_world_def fun_upd_twist)
qed

subsection \<open>Priority among the candidates\<close>

text \<open>
  C2. Let the candidate list be \<open>pre @ p # post\<close>, where \<open>p\<close> holds a file that reads and
  decodes and no candidate of \<open>pre\<close> does (each is empty, unreadable, or holds a text the
  decoder rejects). Then \<^verbatim>\<open>LoadConfig\<close> returns \<^verbatim>\<open>nil\<close>, the object is what decoding the
  file at \<open>p\<close> leaves, and the files read are the non-empty candidates of \<open>pre\<close> followed
  by \<open>p\<close>: nothing in \<open>post\<close> is read, valid or not. The candidates of a manager are, in
  this order, the custom directory, the working directory, \<open>$HOME/.config\<close>,
  \<open>/usr/local/etc\<close> and \<open>/etc\<close> (\<open>newManager_confPaths\<close>).
\<close>

theorem LoadConfig_first_usable_candidate:
  assumes paths: "confPaths m = pre @ p # post"
    and pre: "\<forall>cd \<in> set pre. cd = [] \<or>
               (case files w cd of None \<Rightarrow> True | Some t \<Rightarrow> \<forall>c. fst (dec t c) \<noteq> None)"
    and p: "p \<noteq> []" "files w p = Some t" "\<forall>c. fst (dec t c) = None"
  shows "fst (LoadConfig dec w m) = None \<and>
         Conf (fst (snd (LoadConfig dec w m))) =
           snd (dec t (fst (snd (tryPaths dec w pre (Conf m))))) \<and>
         reads (snd (snd (LoadConfig dec w m))) = filter (\<lambda>cd. cd \<noteq> []) pre @ [p]"
proof -
  obtain r c1 ev where pre_run: "tryPaths dec w pre (Conf m) = (r, c1, ev)"
    by (cases "tryPaths dec w pre (Conf m)") auto
  from tryPaths_unusable [OF pre, of "Conf m"] pre_run
  have r: "r = Some ErrNoConfigFound" and ev: "reads ev = filter (\<lambda>cd. cd \<noteq> []) pre"
    by simp_all
  from p(3) have "fst (dec t c1) = None" by simp
  then obtain c2 where dec: "dec t c1 = (None, c2)"
    by (cases "dec t c1") auto
  have "tryPaths dec w (p # post) c1 = (None, c2, [DebugTrying p, ReadFile p])"
    using p(1,2) dec by simp
  then have "tryPaths dec w (confPaths m) (Conf m) = (None, c2, ev @ [DebugTrying p, ReadFile p])"
    unfolding paths tryPaths_append pre_run r by simp
  then show ?thesis
    using pre_run dec ev by (simp add: LoadConfig_error LoadConfig_manager LoadConfig_events)
qed

text \<open>
  Valid files in the working directory and in \<open>/etc\<close>, none in the custom directory
  \<open>d\<close>: the load succeeds, \<open>b\<close> comes from the file of the working directory, \<open>a\<close> keeps
  its value, and \<open>/etc/c.toml\<close> is not read.
\<close>

theorem LoadConfig_first_usable_candidate_witness:
  "fst (LoadConfig (toml_decode sample_doc sample_written)
          (sample_world [(''c.toml'', ''b = 7''), (''/etc/c.toml'', ''a = 3'')] True)
          (newManager (sample_world [(''c.toml'', ''b = 7''), (''/etc/c.toml'', ''a = 3'')] True)
             sample_defaults ''d'' ''c.toml'' [''a'' \<mapsto> 1, ''b'' \<mapsto> 2])) = None \<and>
   Conf (fst (snd (LoadConfig (toml_decode sample_doc sample_written)
          (sample_world [(''c.toml'', ''b = 7''), (''/etc/c.toml'', ''a = 3'')] True)
          (newManager (sample_world [(''c.toml'', ''b = 7''), (''/etc/c.toml'', ''a = 3'')] True)
             sample_defaults ''d'' ''c.toml'' [''a'' \<mapsto> 1, ''b'' \<mapsto> 2])))) ''a'' = Some 1 \<and>
   Conf (fst (snd (LoadConfig (toml_decode sample_doc sample_written)
          (sample_world [(''c.toml'', ''b = 7''), (''/etc/c.toml'', ''a = 3'')] True)
          (newManager (sample_world [(''c.toml'', ''b = 7''), (''/etc/c.toml'', ''a = 3'')] True)
             sample_defaults ''d'' ''c.toml'' [''a'' \<mapsto> 1, ''b'' \<mapsto> 2])))) ''b'' = Some 7 \<and>
   reads (snd (snd (LoadConfig (toml_decode sample_doc sample_written)
          (sample_world [(''c.toml'', ''b = 7''), (''/etc/c.toml'', ''a = 3'')] True)
          (newManager (sample_world [(''c.toml'', ''b = 7''), (''/etc/c.toml'', ''a = 3'')] True)
             sample_defaults ''d'' ''c.toml'' [''a'' \<mapsto> 1, ''b'' \<mapsto> 2])))) =
     [''d/c.toml'', ''c.toml'']"
proof -
  let ?w = "sample_world [(''c.toml'', ''b = 7''), (''/etc/c.toml'', ''a = 3'')] True"
  let ?m = "newManager ?w sample_defaults ''d'' ''c.toml'' [''a'' \<mapsto> (1::int), ''b'' \<mapsto> 2]"
  have paths: "confPaths ?m = [''d/c.toml''] @ ''c.toml'' #
      [''/home/u/.config/c.toml'', ''/usr/local/etc/c.toml'', ''/etc/c.toml'']"
    by (simp add: newManager_def sample_world_def)
  have pre: "\<forall>cd \<in> set [''d/c.toml'']. cd = [] \<or>
      (case files ?w cd of None \<Rightarrow> True
       | Some t \<Rightarrow> \<forall>c. fst (toml_decode sample_doc sample_written t c) \<noteq> None)"
    by (simp add: sample_world_def)
  have p: "''c.toml'' \<noteq> []" "files ?w ''c.toml'' = Some ''b = 7''"
    "\<forall>c. fst (toml_decode sample_doc sample_written ''b = 7'' c) = None"
    by (simp_all add: sample_world_def toml_decode_def sample_doc_def sample_written_def)
  have result: "snd (toml_decode sample_doc sample_written ''b = 7''
      (fst (snd (tryPaths (toml_decode sample_doc sample_written) ?w [''d/c.toml''] (Conf ?m))))) =
      [''a'' \<mapsto> 1, ''b'' \<mapsto> 7]"
    by (simp add: newManager_def sample_world_def toml_decode_def sample_doc_def sample_written_def)
  from LoadConfig_first_usable_candidate [OF paths pre p]
  show ?thesis
    unfolding result by simp
qed

subsection \<open>No readable candidate\<close>

text \<open>
  C4. A manager as \<^verbatim>\<open>New\<close> returns it without autoload, in an environment where no
  candidate path can be read: \<^verbatim>\<open>LoadConfig\<close> returns \<open>ErrNoConfigFound\<close>, the manager and
  its object are exactly as before the call, and the object is what decoding the
  default document left.
\<close>

theorem LoadConfig_nothing_readable:
  assumes new: "New dec w defaultConf confDir f config False = (Returned m, ev0)"
    and unreadable: "\<forall>cd \<in> set (confPaths m). cd \<noteq> [] \<longrightarrow> files w cd = None"
  shows "LoadConfig dec w m = (Some ErrNoConfigFound, m, skipped (confPaths m)) \<and>
         Conf m = snd (dec defaultConf config)"
proof -
  have "LoadConfig dec w m = (Some ErrNoConfigFound, m, skipped (confPaths m))"
    by (simp add: LoadConfig_def tryPaths_unreadable [OF unreadable])
  moreover have "Conf m = snd (dec defaultConf config)"
    using new
    by (cases "dec defaultConf config")
       (auto simp: New_def newManager_def split: option.splits)
  ultimately show ?thesis by simp
qed

theorem LoadConfig_nothing_readable_witness:
  "LoadConfig (toml_decode sample_doc sample_written) (sample_world [] True)
     ((newManager (sample_world [] True) sample_defaults ''d'' ''c.toml'' Map.empty)
        \<lparr>Conf := snd (toml_decode sample_doc sample_written sample_defaults Map.empty)\<rparr>) =
     (Some ErrNoConfigFound,
      (newManager (sample_world [] True) sample_defaults ''d'' ''c.toml'' Map.empty)
        \<lparr>Conf := snd (toml_decode sample_doc sample_written sample_defaults Map.empty)\<rparr>,
      skipped [''d/c.toml'', ''c.toml'', ''/home/u/.config/c.toml'',
               ''/usr/local/etc/c.toml'', ''/etc/c.toml'']) \<and>
   snd (toml_decode sample_doc sample_written sample_defaults Map.empty) ''a'' = Some 1 \<and>
   snd (toml_decode sample_doc sample_written sample_defaults Map.empty) ''b'' = Some 2"
proof -
  let ?w = "sample_world [] True"
  let ?D = "toml_decode sample_doc sample_written"
  let ?m = "(newManager ?w sample_defaults ''d'' ''c.toml'' Map.empty)
              \<lparr>Conf := snd (?D sample_defaults Map.empty)\<rparr>"
  have ok: "fst (?D sample_defaults Map.empty) = None"
    by (simp add: toml_decode_def sample_doc_def sample_written_def sample_defaults_def)
  have new: "New ?D ?w sample_defaults ''d'' ''c.toml'' Map.empty False = (Returned ?m, [])"
    by (rule New_no_autoload) (rule ok)
  have unreadable: "\<forall>cd \<in> set (confPaths ?m). cd \<noteq> [] \<longrightarrow> files ?w cd = None"
    by (simp add: sample_world_def)
  have paths: "confPaths ?m = [''d/c.toml'', ''c.toml'', ''/home/u/.config/c.toml'',
               ''/usr/local/etc/c.toml'', ''/etc/c.toml'']"
    by (simp add: newManager_def sample_world_def)
  from LoadConfig_nothing_readable [OF new unreadable]
  show ?thesis
    unfolding paths by (simp add: toml_decode_def sample_doc_def sample_written_def sample_defaults_def)
qed

subsection \<open>Autoload without any configuration file\<close>

text \<open>
  C5. \<^verbatim>\<open>New\<close> with autoload, a default document that decodes, and a load that returns
  \<open>ErrNoConfigFound\<close>: after the events of the load and the notice, the code calls
  \<^verbatim>\<open>ioutil.WriteFile\<close> with the file name, the default text as given and the permission
  \<open>0644\<close>; the process exits with status 0 when the write reports no error, and with
  status 1, after a warning and the list of candidate paths, when it does.
\<close>

theorem New_autoload_generates_default:
  assumes ok: "fst (dec defaultConf config) = None"
    and notfound: "fst (LoadConfig dec w
        ((newManager w defaultConf confDir f config)\<lparr>Conf := snd (dec defaultConf config)\<rparr>)) =
        Some ErrNoConfigFound"
  shows "New dec w defaultConf confDir f config True =
     (Exited (if write_error w f defaultConf perm_0644 = None then 0 else 1),
      snd (snd (LoadConfig dec w
        ((newManager w defaultConf confDir f config)\<lparr>Conf := snd (dec defaultConf config)\<rparr>))) @
      [InfoGenerate, WriteFile f defaultConf perm_0644] @
      (if write_error w f defaultConf perm_0644 = None then []
       else WarnNotCreated f #
            map Println (confPaths (newManager w defaultConf confDir f config))))"
proof -
  let ?m = "(newManager w defaultConf confDir f config)\<lparr>Conf := snd (dec defaultConf config)\<rparr>"
  obtain conf' where dec: "dec defaultConf config = (None, conf')"
    using ok by (cases "dec defaultConf config") auto
  obtain m' ev where load: "LoadConfig dec w ?m = (Some ErrNoConfigFound, m', ev)"
    using notfound by (cases "LoadConfig dec w ?m") auto
  have "confPaths m' = confPaths (newManager w defaultConf confDir f config)"
    using load by (auto simp: LoadConfig_def split: prod.splits)
  then show ?thesis
    using dec load
    by (simp add: New_def Let_def newManager_def split: option.splits)
qed


theorem New_autoload_generates_default_witness:
  "New (toml_decode sample_doc sample_written) (sample_world [] True) sample_defaults ''d'' ''c.toml'' Map.empty True =
     (Exited 0,
      skipped [''d/c.toml'', ''c.toml'', ''/home/u/.config/c.toml'',
               ''/usr/local/etc/c.toml'', ''/etc/c.toml''] @
      [InfoGenerate, WriteFile ''c.toml'' sample_defaults 420]) \<and>
   New (toml_decode sample_doc sample_written) (sample_world [] False) sample_defaults ''d'' ''c.toml'' Map.empty True =
     (Exited 1,
      skipped [''d/c.toml'', ''c.toml'', ''/home/u/.config/c.toml'',
               ''/usr/local/etc/c.toml'', ''/etc/c.toml''] @
      [InfoGenerate, WriteFile ''c.toml'' sample_defaults 420, WarnNotCreated ''c.toml''] @
      map Println [''d/c.toml'', ''c.toml'', ''/home/u/.config/c.toml'',
               ''/usr/local/etc/c.toml'', ''/etc/c.toml''])"
proof -
  let ?D = "toml_decode sample_doc sample_written"
  have ok: "fst (?D sample_defaults Map.empty) = None"
    by (simp add: toml_decode_def sample_doc_def sample_written_def sample_defaults_def)
  have load: "LoadConfig ?D (sample_world [] b)
        ((newManager (sample_world [] b) sample_defaults ''d'' ''c.toml'' Map.empty)
           \<lparr>Conf := snd (?D sample_defaults Map.empty)\<rparr>) =
      (Some ErrNoConfigFound,
       (newManager (sample_world [] b) sample_defaults ''d'' ''c.toml'' Map.empty)
           \<lparr>Conf := snd (?D sample_defaults Map.empty)\<rparr>,
       skipped [''d/c.toml'', ''c.toml'', ''/home/u/.config/c.toml'',
               ''/usr/local/etc/c.toml'', ''/etc/c.toml''])" for b
    by (simp add: LoadConfig_def newManager_def sample_world_def)
  have notfound: "fst (LoadConfig ?D (sample_world [] b)
        ((newManager (sample_world [] b) sample_defaults ''d'' ''c.toml'' Map.empty)
           \<lparr>Conf := snd (?D sample_defaults Map.empty)\<rparr>)) = Some ErrNoConfigFound" for b
    by (simp add: load)
  have paths: "confPaths (newManager (sample_world [] b) sample_defaults ''d'' ''c.toml'' Map.empty) =
      [''d/c.toml'', ''c.toml'', ''/home/u/.config/c.toml'',
               ''/usr/local/etc/c.toml'', ''/etc/c.toml'']" for b
    by (simp add: newManager_def sample_world_def)
  have w: "write_error (sample_world [] b) p d n = (if b then None else Some (IOError ''read-only''))" for b p d n
    by (simp add: sample_world_def)
  from New_autoload_generates_default [of ?D, OF ok notfound [of True]]
       New_autoload_generates_default [of ?D, OF ok notfound [of False]]
  show ?thesis
    by (simp add: load paths w perm_0644_value)
qed

subsection \<open>Every candidate exhausted\<close>

text \<open>
  C6. When every candidate is empty, unreadable, or holds a text that the decoder
  rejects, \<^verbatim>\<open>LoadConfig\<close> reads each non-empty candidate in turn and returns the marker
  error \<open>ErrNoConfigFound\<close>, a constructor without arguments.
\<close>

theorem LoadConfig_exhausted:
  assumes "\<forall>cd \<in> set (confPaths m). cd = [] \<or>
             (case files w cd of None \<Rightarrow> True | Some t \<Rightarrow> \<forall>c. fst (dec t c) \<noteq> None)"
  shows "fst (LoadConfig dec w m) = Some ErrNoConfigFound \<and>
         reads (snd (snd (LoadConfig dec w m))) = filter (\<lambda>cd. cd \<noteq> []) (confPaths m)"
  using tryPaths_unusable [OF assms, of "Conf m"]
  by (simp add: LoadConfig_error LoadConfig_events)

theorem LoadConfig_exhausted_witness:
  "fst (LoadConfig (toml_decode sample_doc sample_written)
          (sample_world [(''c.toml'', ''a =''), (''/etc/c.toml'', ''a = 9'' @ [CHR 0x0A] @ ''b = true'')] True)
          (newManager (sample_world [(''c.toml'', ''a =''), (''/etc/c.toml'', ''a = 9'' @ [CHR 0x0A] @ ''b = true'')] True)
             sample_defaults ''d'' ''c.toml'' [''a'' \<mapsto> 1, ''b'' \<mapsto> 2])) = Some ErrNoConfigFound \<and>
   reads (snd (snd (LoadConfig (toml_decode sample_doc sample_written)
          (sample_world [(''c.toml'', ''a =''), (''/etc/c.toml'', ''a = 9'' @ [CHR 0x0A] @ ''b = true'')] True)
          (newManager (sample_world [(''c.toml'', ''a =''), (''/etc/c.toml'', ''a = 9'' @ [CHR 0x0A] @ ''b = true'')] True)
             sample_defaults ''d'' ''c.toml'' [''a'' \<mapsto> 1, ''b'' \<mapsto> 2])))) =
     [''d/c.toml'', ''c.toml'', ''/home/u/.config/c.toml'', ''/usr/local/etc/c.toml'', ''/etc/c.toml'']"
proof -
  let ?w = "sample_world [(''c.toml'', ''a =''), (''/etc/c.toml'', ''a = 9'' @ [CHR 0x0A] @ ''b = true'')] True"
  let ?m = "newManager ?w sample_defaults ''d'' ''c.toml'' [''a'' \<mapsto> (1::int), ''b'' \<mapsto> 2]"
  have paths: "confPaths ?m = [''d/c.toml'', ''c.toml'', ''/home/u/.config/c.toml'',
      ''/usr/local/etc/c.toml'', ''/etc/c.toml'']"
    by (simp add: newManager_def sample_world_def)
  have "\<forall>cd \<in> set (confPaths ?m). cd = [] \<or>
      (case files ?w cd of None \<Rightarrow> True
       | Some t \<Rightarrow> \<forall>c. fst (toml_decode sample_doc sample_written t c) \<noteq> None)"
    unfolding paths by (simp add: sample_world_def toml_decode_def sample_doc_def sample_written_def)
  from LoadConfig_exhausted [OF this]
  show ?thesis unfolding paths by simp
qed

subsection \<open>A candidate that does not decode\<close>

text \<open>
  C7. Let the loop reach the candidate \<open>p\<close> (the candidates \<open>pre\<close> before it were passed
  without success, leaving the object at \<open>c0\<close> after the events \<open>ev0\<close>), let \<open>p\<close> be read
  and its decode fail, leaving the object at \<open>c1\<close>. Then \<^verbatim>\<open>LoadConfig\<close> logs the warning
  for \<open>p\<close> and its result is that of the loop over the remaining candidates from \<open>c1\<close>,
  not an error of its own. In particular, when the next readable candidate \<open>q\<close> decodes,
  the load returns \<^verbatim>\<open>nil\<close> with the object as the decode of \<open>q\<close> leaves it.
\<close>

theorem LoadConfig_skips_malformed:
  assumes paths: "confPaths m = pre @ p # rest"
    and reach: "tryPaths dec w pre (Conf m) = (Some ErrNoConfigFound, c0, ev0)"
    and p: "p \<noteq> []" "files w p = Some tp" "dec tp c0 = (Some e, c1)"
  shows "LoadConfig dec w m =
           (case tryPaths dec w rest c1 of
              (r, c', ev) \<Rightarrow>
                (r, m\<lparr>Conf := c'\<rparr>, ev0 @ [DebugTrying p, ReadFile p, WarnDecode p] @ ev)) \<and>
         (\<forall>mid q post tq c2.
            rest = mid @ q # post \<and> (\<forall>cd \<in> set mid. cd \<noteq> [] \<longrightarrow> files w cd = None) \<and>
            q \<noteq> [] \<and> files w q = Some tq \<and> dec tq c1 = (None, c2) \<longrightarrow>
            LoadConfig dec w m =
              (None, m\<lparr>Conf := c2\<rparr>,
               ev0 @ [DebugTrying p, ReadFile p, WarnDecode p] @ skipped mid @
               [DebugTrying q, ReadFile q]))"
proof -
  have step: "tryPaths dec w (p # rest) c0 =
      emit [DebugTrying p, ReadFile p, WarnDecode p] (tryPaths dec w rest c1)"
    using p by simp
  have whole: "tryPaths dec w (confPaths m) (Conf m) =
      emit (ev0 @ [DebugTrying p, ReadFile p, WarnDecode p]) (tryPaths dec w rest c1)"
    by (cases "tryPaths dec w rest c1")
       (simp add: paths tryPaths_append reach step del: tryPaths.simps)
  have first: "LoadConfig dec w m =
           (case tryPaths dec w rest c1 of
              (r, c', ev) \<Rightarrow>
                (r, m\<lparr>Conf := c'\<rparr>, ev0 @ [DebugTrying p, ReadFile p, WarnDecode p] @ ev))"
    unfolding LoadConfig_def whole
    by (cases "tryPaths dec w rest c1") simp
  have second: "LoadConfig dec w m =
              (None, m\<lparr>Conf := c2\<rparr>,
               ev0 @ [DebugTrying p, ReadFile p, WarnDecode p] @ skipped mid @
               [DebugTrying q, ReadFile q])"
    if rest: "rest = mid @ q # post"
      and mid: "\<forall>cd \<in> set mid. cd \<noteq> [] \<longrightarrow> files w cd = None"
      and q: "q \<noteq> []" "files w q = Some tq" "dec tq c1 = (None, c2)"
    for mid q post tq c2
  proof -
    have "tryPaths dec w (q # post) c1 = (None, c2, [DebugTrying q, ReadFile q])"
      using q by simp
    then have "tryPaths dec w rest c1 = (None, c2, skipped mid @ [DebugTrying q, ReadFile q])"
      unfolding rest tryPaths_append tryPaths_unreadable [OF mid] by simp
    then show ?thesis unfolding first by simp
  qed
  from first second show ?thesis by blast
qed

text \<open>
  A document with a type error in the custom directory, a valid one in \<open>/etc\<close>: the
  load logs the warning for the first and succeeds with \<open>b\<close> from \<open>/etc/c.toml\<close>.
\<close>

theorem LoadConfig_skips_malformed_witness:
  "fst (LoadConfig (toml_decode sample_doc sample_written)
          (sample_world [(''d/c.toml'', ''a = 9'' @ [CHR 0x0A] @ ''b = true''),
                         (''/etc/c.toml'', ''b = 7'')] True)
          (newManager (sample_world [(''d/c.toml'', ''a = 9'' @ [CHR 0x0A] @ ''b = true''),
                         (''/etc/c.toml'', ''b = 7'')] True)
             sample_defaults ''d'' ''c.toml'' [''a'' \<mapsto> 1, ''b'' \<mapsto> 2])) = None \<and>
   Conf (fst (snd (LoadConfig (toml_decode sample_doc sample_written)
          (sample_world [(''d/c.toml'', ''a = 9'' @ [CHR 0x0A] @ ''b = true''),
                         (''/etc/c.toml'', ''b = 7'')] True)
          (newManager (sample_world [(''d/c.toml'', ''a = 9'' @ [CHR 0x0A] @ ''b = true''),
                         (''/etc/c.toml'', ''b = 7'')] True)
             sample_defaults ''d'' ''c.toml'' [''a'' \<mapsto> 1, ''b'' \<mapsto> 2])))) ''b'' = Some 7 \<and>
   snd (snd (LoadConfig (toml_decode sample_doc sample_written)
          (sample_world [(''d/c.toml'', ''a = 9'' @ [CHR 0x0A] @ ''b = true''),
                         (''/etc/c.toml'', ''b = 7'')] True)
          (newManager (sample_world [(''d/c.toml'', ''a = 9'' @ [CHR 0x0A] @ ''b = true''),
                         (''/etc/c.toml'', ''b = 7'')] True)
             sample_defaults ''d'' ''c.toml'' [''a'' \<mapsto> 1, ''b'' \<mapsto> 2]))) =
     [DebugTrying ''d/c.toml'', ReadFile ''d/c.toml'', WarnDecode ''d/c.toml''] @
     skipped [''c.toml'', ''/home/u/.config/c.toml'', ''/usr/local/etc/c.toml''] @
     [DebugTrying ''/etc/c.toml'', ReadFile ''/etc/c.toml'']"
proof -
  let ?bad = "''a = 9'' @ [CHR 0x0A] @ ''b = true''"
  let ?w = "sample_world [(''d/c.toml'', ?bad), (''/etc/c.toml'', ''b = 7'')] True"
  let ?D = "toml_decode sample_doc sample_written"
  let ?c0 = "[''a'' \<mapsto> (1::int), ''b'' \<mapsto> 2]"
  let ?m = "newManager ?w sample_defaults ''d'' ''c.toml'' ?c0"
  let ?c1 = "snd (?D ?bad ?c0)"
  let ?c2 = "snd (?D ''b = 7'' ?c1)"
  let ?mid = "[''c.toml'', ''/home/u/.config/c.toml'', ''/usr/local/etc/c.toml'']"
  have paths: "confPaths ?m = [] @ ''d/c.toml'' # (?mid @ ''/etc/c.toml'' # [])"
    by (simp add: newManager_def sample_world_def)
  have reach: "tryPaths ?D ?w [] (Conf ?m) = (Some ErrNoConfigFound, ?c0, [])"
    by (simp add: newManager_def)
  have p: "''d/c.toml'' \<noteq> []" "files ?w ''d/c.toml'' = Some ?bad"
    "?D ?bad ?c0 = (Some (TomlError ''type mismatch''), ?c1)"
    by (simp_all add: sample_world_def toml_decode_def sample_doc_def sample_written_def)
  have q: "?mid @ ''/etc/c.toml'' # [] = ?mid @ ''/etc/c.toml'' # [] \<and>
      (\<forall>cd \<in> set ?mid. cd \<noteq> [] \<longrightarrow> files ?w cd = None) \<and>
      ''/etc/c.toml'' \<noteq> [] \<and> files ?w ''/etc/c.toml'' = Some ''b = 7'' \<and>
      ?D ''b = 7'' ?c1 = (None, ?c2)"
    by (simp add: sample_world_def toml_decode_def sample_doc_def sample_written_def)
  have c2: "?c2 ''b'' = Some 7"
    by (simp add: toml_decode_def sample_doc_def sample_written_def)
  from LoadConfig_skips_malformed [OF paths reach p, THEN conjunct2, rule_format, OF q]
  show ?thesis using c2 by simp
qed

subsection \<open>What a load leaves untouched\<close>

text \<open>
  C10. \<^verbatim>\<open>LoadConfig\<close> returns the manager it was given with at most the object \<open>Conf\<close>
  changed: the candidate paths, the file name and the default text are the same. A
  candidate whose read fails contributes its debug lines and the read attempt and
  nothing else: the loop goes on from the same object.
\<close>

theorem LoadConfig_frame:
  "fst (snd (LoadConfig dec w m)) = m\<lparr>Conf := Conf (fst (snd (LoadConfig dec w m)))\<rparr> \<and>
   confPaths (fst (snd (LoadConfig dec w m))) = confPaths m \<and>
   fileName (fst (snd (LoadConfig dec w m))) = fileName m \<and>
   defaultConfig (fst (snd (LoadConfig dec w m))) = defaultConfig m \<and>
   (files w cd = None \<longrightarrow>
      tryPaths dec w (cd # cds) conf = emit (skipped [cd]) (tryPaths dec w cds conf))"
  by (simp add: LoadConfig_manager emit_Nil)

theorem LoadConfig_frame_witness:
  "confPaths (fst (snd (LoadConfig (toml_decode sample_doc sample_written) (sample_world [(''c.toml'', ''b = 7'')] True)
      (newManager (sample_world [(''c.toml'', ''b = 7'')] True) sample_defaults ''d'' ''c.toml''
         [''a'' \<mapsto> 1, ''b'' \<mapsto> 2])))) =
     [''d/c.toml'', ''c.toml'', ''/home/u/.config/c.toml'', ''/usr/local/etc/c.toml'',
      ''/etc/c.toml''] \<and>
   tryPaths (toml_decode sample_doc sample_written) (sample_world [(''c.toml'', ''b = 7'')] True)
      [''d/c.toml'', ''c.toml''] [''a'' \<mapsto> 1, ''b'' \<mapsto> 2] =
     emit [DebugTrying ''d/c.toml'', ReadFile ''d/c.toml'', DebugNoConfig ''d/c.toml'']
       (tryPaths (toml_decode sample_doc sample_written) (sample_world [(''c.toml'', ''b = 7'')] True)
          [''c.toml''] [''a'' \<mapsto> 1, ''b'' \<mapsto> 2])"
proof -
  let ?w = "sample_world [(''c.toml'', ''b = 7'')] True"
  let ?D = "toml_decode sample_doc sample_written"
  let ?c0 = "[''a'' \<mapsto> (1::int), ''b'' \<mapsto> 2]"
  let ?m = "newManager ?w sample_defaults ''d'' ''c.toml'' ?c0"
  have unreadable: "files ?w ''d/c.toml'' = None"
    by (simp add: sample_world_def)
  have paths: "confPaths ?m = [''d/c.toml'', ''c.toml'', ''/home/u/.config/c.toml'',
      ''/usr/local/etc/c.toml'', ''/etc/c.toml'']"
    by (simp add: newManager_def sample_world_def)
  have sk: "skipped [''d/c.toml''] =
      [DebugTrying ''d/c.toml'', ReadFile ''d/c.toml'', DebugNoConfig ''d/c.toml'']"
    by simp
  from LoadConfig_frame [of ?D ?w ?m "''d/c.toml''" "[''c.toml'']" ?c0]
  show ?thesis
    unfolding paths sk using unreadable by (simp del: tryPaths.simps)
qed

subsection \<open>What a rejected file leaves behind\<close>

text \<open>
  C3. The claim is that a successful load changes only the fields present in the
  loaded document, every other field keeping the value it had before the load; the
  doc comment of \<^verbatim>\<open>New\<close> says the same of the defaults (tags missing from the file
  found get the default values). \<^verbatim>\<open>LoadConfig\<close> decodes every candidate straight into
  the object and keeps what a rejected candidate has written. At the input below the
  manager holds the defaults \<open>a = 1\<close>, \<open>b = 2\<close>; the load warns about \<open>d/c.toml\<close> and
  succeeds with \<open>c.toml\<close>, which does not mention \<open>a\<close>; and \<open>a\<close> is 9 afterwards
  whenever the decoder had assigned the first line of \<open>d/c.toml\<close> before giving up
  on the second.
\<close>

theorem LoadConfig_rejected_file_leaks:
  "New (toml_decode sample_doc written) leak_world sample_defaults ''d'' ''c.toml'' Map.empty False =
     (Returned leak_manager, []) \<and>
   fst (LoadConfig (toml_decode sample_doc written) leak_world leak_manager) = None \<and>
   snd (snd (LoadConfig (toml_decode sample_doc written) leak_world leak_manager)) =
     [DebugTrying ''d/c.toml'', ReadFile ''d/c.toml'', WarnDecode ''d/c.toml'',
      DebugTrying ''c.toml'', ReadFile ''c.toml''] \<and>
   snd (sample_doc ''b = 7'') ''a'' = None \<and>
   Conf leak_manager ''a'' = Some 1 \<and>
   Conf (fst (snd (LoadConfig (toml_decode sample_doc written) leak_world leak_manager))) ''a'' =
     (if ''a'' \<in> written (''a = 9'' @ [CHR 0x0A] @ ''b = true'') [''a'' \<mapsto> 1, ''b'' \<mapsto> 2]
      then Some 9 else Some 1) \<and>
   Conf (fst (snd (LoadConfig (toml_decode sample_doc (\<lambda>text conf. {''a''}))
                     leak_world leak_manager))) ''a'' = Some 9"
proof (intro conjI)
  show "New (toml_decode sample_doc written) leak_world sample_defaults ''d'' ''c.toml''
          Map.empty False = (Returned leak_manager, [])"
    by (simp add: New_def newManager_def toml_decode_def sample_doc_def sample_defaults_def
        leak_manager_def)
  show "fst (LoadConfig (toml_decode sample_doc written) leak_world leak_manager) = None"
    by (simp add: LoadConfig_def newManager_def toml_decode_def sample_doc_def
        sample_world_def leak_world_def leak_manager_def)
  show "snd (snd (LoadConfig (toml_decode sample_doc written) leak_world leak_manager)) =
     [DebugTrying ''d/c.toml'', ReadFile ''d/c.toml'', WarnDecode ''d/c.toml'',
      DebugTrying ''c.toml'', ReadFile ''c.toml'']"
    by (simp add: LoadConfig_def newManager_def toml_decode_def sample_doc_def
        sample_world_def leak_world_def leak_manager_def)
  show "snd (sample_doc ''b = 7'') ''a'' = None"
    by (simp add: sample_doc_def)
  show "Conf leak_manager ''a'' = Some 1"
    by (simp add: leak_manager_def)
  show "Conf (fst (snd (LoadConfig (toml_decode sample_doc written) leak_world leak_manager)))
          ''a'' =
     (if ''a'' \<in> written (''a = 9'' @ [CHR 0x0A] @ ''b = true'') [''a'' \<mapsto> 1, ''b'' \<mapsto> 2]
      then Some 9 else Some 1)"
    by (simp add: LoadConfig_def newManager_def toml_decode_def sample_doc_def
        sample_world_def leak_world_def leak_manager_def map_add_def restrict_map_def)
  show "Conf (fst (snd (LoadConfig (toml_decode sample_doc (\<lambda>text conf. {''a''}))
                     leak_world leak_manager))) ''a'' = Some 9"
    by (simp add: LoadConfig_def newManager_def toml_decode_def sample_doc_def
        sample_world_def leak_world_def leak_manager_def)
qed

text \<open>
  C9. The claim is that two calls of \<^verbatim>\<open>LoadConfig\<close> in succession return the same
  result and leave the object as one call does, each call running the search from the
  first candidate. At the same input both calls return \<^verbatim>\<open>nil\<close> and both read
  \<open>d/c.toml\<close> and then \<open>c.toml\<close>, but the object differs: in the first call the decode
  of \<open>d/c.toml\<close> gives up before its first line is assigned and \<open>a\<close> stays 1, in the
  second it gives up after and \<open>a\<close> is 9.
\<close>

theorem LoadConfig_twice_differs:
  "fst (LoadConfig (toml_decode sample_doc sample_written) leak_world leak_manager) = None \<and>
   snd (snd (LoadConfig (toml_decode sample_doc sample_written) leak_world leak_manager)) =
     [DebugTrying ''d/c.toml'', ReadFile ''d/c.toml'', WarnDecode ''d/c.toml'',
      DebugTrying ''c.toml'', ReadFile ''c.toml''] \<and>
   Conf (fst (snd (LoadConfig (toml_decode sample_doc sample_written) leak_world leak_manager)))
     ''a'' = Some 1 \<and>
   fst (LoadConfig (toml_decode sample_doc sample_written) leak_world
          (fst (snd (LoadConfig (toml_decode sample_doc sample_written) leak_world leak_manager)))) =
     None \<and>
   snd (snd (LoadConfig (toml_decode sample_doc sample_written) leak_world
          (fst (snd (LoadConfig (toml_decode sample_doc sample_written) leak_world leak_manager))))) =
     [DebugTrying ''d/c.toml'', ReadFile ''d/c.toml'', WarnDecode ''d/c.toml'',
      DebugTrying ''c.toml'', ReadFile ''c.toml''] \<and>
   Conf (fst (snd (LoadConfig (toml_decode sample_doc sample_written) leak_world
          (fst (snd (LoadConfig (toml_decode sample_doc sample_written) leak_world leak_manager))))))
     ''a'' = Some 9"
  by (simp add: LoadConfig_def newManager_def toml_decode_def sample_doc_def
        sample_written_def sample_world_def leak_world_def leak_manager_def)

end
